theory Spec2Isabelle
  imports Main
begin

section \<open>Data model (types/story.ts)\<close>

text \<open>
  The three entity types of \<^verbatim>\<open>types/story.ts\<close>. A JavaScript string is modelled as a
  \<^typ>\<open>string\<close>; a field of type \<^verbatim>\<open>string | null\<close> as a \<^typ>\<open>string option\<close>, with
  \<^term>\<open>None\<close> for \<^verbatim>\<open>null\<close>. The field \<^verbatim>\<open>id\<close> of each entity is prefixed with the
  entity's name, and so are \<^verbatim>\<open>title\<close>, \<^verbatim>\<open>body\<close> and \<^verbatim>\<open>text\<close>, because record fields
  are global constants.
\<close>

record choice =
  choice_id :: string
  choice_text :: string
  targetSceneId :: "string option"

record scene =
  scene_id :: string
  scene_title :: string
  scene_body :: string
  choices :: "choice list"

record story =
  story_id :: string
  story_title :: string
  description :: string
  scenes :: "scene list"
  startSceneId :: "string option"

text \<open>
  \<^verbatim>\<open>Partial<T>\<close>: every field of the entity is optional, the identifier included.
  \<^term>\<open>None\<close> is an absent key. For \<^verbatim>\<open>targetSceneId\<close> and \<^verbatim>\<open>startSceneId\<close> the supplied
  value may itself be \<^verbatim>\<open>null\<close>, hence the nested option.
\<close>

record choice_patch =
  cp_id :: "string option"
  cp_text :: "string option"
  cp_targetSceneId :: "string option option"

record scene_patch =
  sp_id :: "string option"
  sp_title :: "string option"
  sp_body :: "string option"
  sp_choices :: "choice list option"

record story_patch =
  stp_id :: "string option"
  stp_title :: "string option"
  stp_description :: "string option"
  stp_scenes :: "scene list option"
  stp_startSceneId :: "string option option"

text \<open>The object spread \<^verbatim>\<open>{ ...x, ...updates }\<close>: a key present in the patch wins.\<close>

definition spread :: "'a \<Rightarrow> 'a option \<Rightarrow> 'a" where
  "spread old upd = (case upd of None \<Rightarrow> old | Some v \<Rightarrow> v)"

definition merge_choice :: "choice \<Rightarrow> choice_patch \<Rightarrow> choice" where
  "merge_choice c p =
     \<lparr> choice_id = spread (choice_id c) (cp_id p),
       choice_text = spread (choice_text c) (cp_text p),
       targetSceneId = spread (targetSceneId c) (cp_targetSceneId p) \<rparr>"

definition merge_scene :: "scene \<Rightarrow> scene_patch \<Rightarrow> scene" where
  "merge_scene s p =
     \<lparr> scene_id = spread (scene_id s) (sp_id p),
       scene_title = spread (scene_title s) (sp_title p),
       scene_body = spread (scene_body s) (sp_body p),
       choices = spread (choices s) (sp_choices p) \<rparr>"

definition merge_story :: "story \<Rightarrow> story_patch \<Rightarrow> story" where
  "merge_story st p =
     \<lparr> story_id = spread (story_id st) (stp_id p),
       story_title = spread (story_title st) (stp_title p),
       description = spread (description st) (stp_description p),
       scenes = spread (scenes st) (stp_scenes p),
       startSceneId = spread (startSceneId st) (stp_startSceneId p) \<rparr>"

section \<open>Identifier generation (hooks/useStories.ts, generateId)\<close>

text \<open>
  \<^verbatim>\<open>`${Date.now()}-${Math.random().toString(36).substring(2, 11)}`\<close>.
  The two readings of the environment are parameters: \<open>now\<close> is the value of
  \<^verbatim>\<open>Date.now()\<close> (milliseconds, a natural number) and \<open>rnd\<close> is the string that
  \<^verbatim>\<open>Math.random().toString(36)\<close> returned (\<^verbatim>\<open>"0"\<close> or \<^verbatim>\<open>"0."\<close> followed by base-36 digits).
\<close>

definition digit_char :: "nat \<Rightarrow> char" where
  "digit_char d = char_of (48 + d)"

function dec :: "nat \<Rightarrow> string" where
  "dec n = (if n < 10 then [digit_char n] else dec (n div 10) @ [digit_char (n mod 10)])"
  by pat_completeness auto
termination
  by (relation "measure (\<lambda>n. n)") auto

declare dec.simps [simp del]

text \<open>
  \<^verbatim>\<open>String.prototype.substring(start, end)\<close>: the arguments are swapped when
  \<open>start > end\<close> and both are clamped to the length of the string.
\<close>

definition substring :: "string \<Rightarrow> nat \<Rightarrow> nat \<Rightarrow> string" where
  "substring s a b = take (max a b - min a b) (drop (min a b) s)"

definition generateId :: "nat \<Rightarrow> string \<Rightarrow> string" where
  "generateId now rnd = dec now @ ''-'' @ substring rnd 2 11"

section \<open>Story Graph Store (hooks/useStories.ts)\<close>

text \<open>
  Every operation hands an updater \<^verbatim>\<open>(prev) => ...\<close> to \<^verbatim>\<open>setStories\<close>; the model is
  that updater, a function on the collection. The operations that create an entity
  return it together with the new collection, and take the two environment readings
  their call of \<^verbatim>\<open>generateId\<close> makes.
\<close>

definition createStory :: "string \<Rightarrow> string \<Rightarrow> nat \<Rightarrow> string \<Rightarrow> story list \<Rightarrow> story \<times> story list" where
  "createStory title descr now rnd prev =
     (let newStory = \<lparr> story_id = generateId now rnd, story_title = title,
                        description = descr, scenes = [], startSceneId = None \<rparr>
      in (newStory, prev @ [newStory]))"

definition updateStory :: "string \<Rightarrow> story_patch \<Rightarrow> story list \<Rightarrow> story list" where
  "updateStory storyId updates prev =
     map (\<lambda>st. if story_id st = storyId then merge_story st updates else st) prev"

definition deleteStory :: "string \<Rightarrow> story list \<Rightarrow> story list" where
  "deleteStory storyId prev = filter (\<lambda>st. story_id st \<noteq> storyId) prev"

definition getStory :: "string \<Rightarrow> story list \<Rightarrow> story option" where
  "getStory storyId stories = find (\<lambda>st. story_id st = storyId) stories"

definition createScene :: "string \<Rightarrow> string \<Rightarrow> nat \<Rightarrow> string \<Rightarrow> story list \<Rightarrow> scene \<times> story list" where
  "createScene storyId title now rnd prev =
     (let newScene = \<lparr> scene_id = generateId now rnd, scene_title = title,
                        scene_body = [], choices = [] \<rparr>
      in (newScene,
          map (\<lambda>st. if story_id st = storyId
                     then st\<lparr> scenes := scenes st @ [newScene] \<rparr> else st) prev))"

definition updateScene :: "string \<Rightarrow> string \<Rightarrow> scene_patch \<Rightarrow> story list \<Rightarrow> story list" where
  "updateScene storyId sceneId updates prev =
     map (\<lambda>st. if story_id st = storyId
                then st\<lparr> scenes := map (\<lambda>s. if scene_id s = sceneId
                                               then merge_scene s updates else s) (scenes st) \<rparr>
                else st) prev"

definition deleteScene :: "string \<Rightarrow> string \<Rightarrow> story list \<Rightarrow> story list" where
  "deleteScene storyId sceneId prev =
     map (\<lambda>st. if story_id st = storyId
                then st\<lparr> scenes := filter (\<lambda>s. scene_id s \<noteq> sceneId) (scenes st),
                         startSceneId := (if startSceneId st = Some sceneId then None
                                          else startSceneId st) \<rparr>
                else st) prev"

definition addChoice :: "string \<Rightarrow> string \<Rightarrow> string \<Rightarrow> nat \<Rightarrow> string \<Rightarrow> story list \<Rightarrow> choice \<times> story list" where
  "addChoice storyId sceneId choiceText now rnd prev =
     (let newChoice = \<lparr> choice_id = generateId now rnd, choice_text = choiceText,
                         targetSceneId = None \<rparr>
      in (newChoice,
          map (\<lambda>st. if story_id st = storyId
                     then st\<lparr> scenes := map (\<lambda>s. if scene_id s = sceneId
                                                    then s\<lparr> choices := choices s @ [newChoice] \<rparr>
                                                    else s) (scenes st) \<rparr>
                     else st) prev))"

definition updateChoice :: "string \<Rightarrow> string \<Rightarrow> string \<Rightarrow> choice_patch \<Rightarrow> story list \<Rightarrow> story list" where
  "updateChoice storyId sceneId choiceId updates prev =
     map (\<lambda>st. if story_id st = storyId
                then st\<lparr> scenes := map (\<lambda>s. if scene_id s = sceneId
                                               then s\<lparr> choices := map (\<lambda>c. if choice_id c = choiceId
                                                                               then merge_choice c updates
                                                                               else c) (choices s) \<rparr>
                                               else s) (scenes st) \<rparr>
                else st) prev"

definition deleteChoice :: "string \<Rightarrow> string \<Rightarrow> string \<Rightarrow> story list \<Rightarrow> story list" where
  "deleteChoice storyId sceneId choiceId prev =
     map (\<lambda>st. if story_id st = storyId
                then st\<lparr> scenes := map (\<lambda>s. if scene_id s = sceneId
                                               then s\<lparr> choices := filter (\<lambda>c. choice_id c \<noteq> choiceId)
                                                                          (choices s) \<rparr>
                                               else s) (scenes st) \<rparr>
                else st) prev"

section \<open>Generator collaborator (server routes/ai.ts, client hooks/useAiApi.ts)\<close>

text \<open>
  The request and response shapes of \<^verbatim>\<open>types/aiTypes.ts\<close>. An optional request field is
  an option.
\<close>

record suggest_scene_request =
  storyTitle :: string
  storyDescription :: string
  currentSceneBody :: string
  storySummary :: "string option"

record suggest_choices_request =
  sceneBody :: string
  storyContext :: "string option"

record scene_result =
  sr_title :: string
  sr_body :: string











section \<open>Playback\<close>

text \<open>
  JavaScript truthiness of a \<^verbatim>\<open>string | null\<close>: \<^verbatim>\<open>null\<close> and the empty string are falsy.
\<close>

definition truthy :: "string option \<Rightarrow> bool" where
  "truthy v = (case v of None \<Rightarrow> False | Some s \<Rightarrow> s \<noteq> [])"

text \<open>\<^verbatim>\<open>story.scenes.find((s) => s.id === currentSceneId)\<close>; \<^verbatim>\<open>null\<close> equals no id.\<close>

definition find_scene :: "scene list \<Rightarrow> string option \<Rightarrow> scene option" where
  "find_scene scs cur = find (\<lambda>s. Some (scene_id s) = cur) scs"

text \<open>
  \<^verbatim>\<open>String.prototype.trim\<close>. A character of the model is a code unit below 256; the
  white space among these is tab, line feed, vertical tab, form feed, carriage return,
  space and the no-break space U+00A0. The white space above U+00FF (U+1680, U+2000 to
  U+200A, U+2028, U+2029, U+202F, U+205F, U+3000, U+FEFF) has no character in the model.
\<close>

definition is_space :: "char \<Rightarrow> bool" where
  "is_space c = (c \<in> set [CHR 0x09, CHR 0x0A, CHR 0x0B, CHR 0x0C, CHR 0x0D, CHR 0x20, CHR 0xA0])"

definition trim :: "string \<Rightarrow> string" where
  "trim s = rev (dropWhile is_space (rev (dropWhile is_space s)))"

subsection \<open>StoryPreview (components/StoryPreview.tsx)\<close>

text \<open>
  The component's state that the story graph depends on. Narration, music and word
  highlighting are left out.
\<close>

record preview_state =
  pv_currentSceneId :: "string option"
  pv_customInput :: string
  pv_isGenerating :: bool

definition preview_init :: "story \<Rightarrow> preview_state" where
  "preview_init st =
     \<lparr> pv_currentSceneId = startSceneId st, pv_customInput = [], pv_isGenerating = False \<rparr>"

definition preview_handleRestart :: "story \<Rightarrow> preview_state \<Rightarrow> preview_state" where
  "preview_handleRestart st ps = ps\<lparr> pv_currentSceneId := startSceneId st, pv_customInput := [] \<rparr>"

definition preview_handleChoice :: "string option \<Rightarrow> preview_state \<Rightarrow> preview_state" where
  "preview_handleChoice target ps =
     (if truthy target then ps\<lparr> pv_currentSceneId := target, pv_customInput := [] \<rparr> else ps)"

text \<open>
  The three returns of the component: the cannot-start message, the scene-not-found
  message with its Restart button, and the scene with its choice buttons.
\<close>

datatype preview_view = CannotStart | SceneNotFound | Playing scene

definition preview_render :: "story \<Rightarrow> preview_state \<Rightarrow> preview_view" where
  "preview_render st ps =
     (if \<not> truthy (startSceneId st) \<or> find_scene (scenes st) (startSceneId st) = None
      then CannotStart
      else case find_scene (scenes st) (pv_currentSceneId ps) of
             None \<Rightarrow> SceneNotFound
           | Some currentScene \<Rightarrow> Playing currentScene)"

text \<open>The choice buttons a view shows, and whether it shows the end-of-story block.\<close>

definition preview_choices :: "preview_view \<Rightarrow> choice list" where
  "preview_choices v = (case v of Playing currentScene \<Rightarrow> choices currentScene | _ \<Rightarrow> [])"




subsection \<open>StoryCanvas (components/StoryCanvas.tsx)\<close>

datatype canvas_mode = PlayMode | EditMode

record canvas_state =
  cv_currentSceneId :: "string option"
  cv_mode :: canvas_mode

text \<open>
  The initializer of \<^verbatim>\<open>currentSceneId\<close>: "use startSceneId, or first scene if available,
  or null".
\<close>

definition canvas_initial_scene :: "story \<Rightarrow> string option" where
  "canvas_initial_scene st =
     (if truthy (startSceneId st) then startSceneId st
      else case scenes st of [] \<Rightarrow> None | s # _ \<Rightarrow> Some (scene_id s))"

definition canvas_init :: "canvas_mode \<Rightarrow> story \<Rightarrow> canvas_state" where
  "canvas_init initialMode st = \<lparr> cv_currentSceneId = canvas_initial_scene st, cv_mode = initialMode \<rparr>"

text \<open>The effect that selects the first scene while no scene is selected.\<close>

definition canvas_effect :: "story \<Rightarrow> canvas_state \<Rightarrow> canvas_state" where
  "canvas_effect st cs =
     (if \<not> truthy (cv_currentSceneId cs)
      then (case scenes st of [] \<Rightarrow> cs | s # _ \<Rightarrow> cs\<lparr> cv_currentSceneId := Some (scene_id s) \<rparr>)
      else cs)"

definition canvas_handleChoice :: "string option \<Rightarrow> canvas_state \<Rightarrow> canvas_state" where
  "canvas_handleChoice target cs =
     (if truthy target then cs\<lparr> cv_currentSceneId := target \<rparr> else cs)"

datatype canvas_view = NoSceneSelected | PlayScene scene | EditScene scene

definition canvas_render :: "story \<Rightarrow> canvas_state \<Rightarrow> canvas_view" where
  "canvas_render st cs =
     (case find_scene (scenes st) (cv_currentSceneId cs) of
        None \<Rightarrow> NoSceneSelected
      | Some currentScene \<Rightarrow>
          (case cv_mode cs of PlayMode \<Rightarrow> PlayScene currentScene | EditMode \<Rightarrow> EditScene currentScene))"

definition canvas_choices :: "canvas_view \<Rightarrow> choice list" where
  "canvas_choices v =
     (case v of NoSceneSelected \<Rightarrow> [] | PlayScene s \<Rightarrow> choices s | EditScene s \<Rightarrow> choices s)"

text \<open>
  \<^verbatim>\<open>handleAiSuggest\<close>. \<open>st\<close> is the \<^verbatim>\<open>story\<close> prop of the render whose handler runs,
  \<open>stories\<close> the collection the store holds when the updates are applied; the wrappers
  of \<^verbatim>\<open>StoryEditorPage\<close> pass \<^verbatim>\<open>story.id\<close> to the store. \<open>env k\<close> gives the two
  environment readings of the \<open>k\<close>-th call of \<^verbatim>\<open>generateId\<close> the handler causes.
\<close>

fun add_choices :: "string \<Rightarrow> string \<Rightarrow> string list \<Rightarrow> (nat \<Rightarrow> nat \<times> string) \<Rightarrow> nat \<Rightarrow> story list \<Rightarrow> story list" where
  "add_choices storyId sceneId [] env k stories = stories"
| "add_choices storyId sceneId (t # ts) env k stories =
     add_choices storyId sceneId ts env (Suc k)
       (snd (addChoice storyId sceneId t (fst (env k)) (snd (env k)) stories))"

definition link_patch :: "string \<Rightarrow> choice_patch" where
  "link_patch sceneId = \<lparr> cp_id = None, cp_text = None, cp_targetSceneId = Some (Some sceneId) \<rparr>"

definition content_patch :: "scene_result \<Rightarrow> scene_patch" where
  "content_patch result =
     \<lparr> sp_id = None, sp_title = Some (sr_title result), sp_body = Some (sr_body result),
       sp_choices = None \<rparr>"

definition handleAiSuggest ::
    "(suggest_scene_request \<Rightarrow> scene_result option) \<Rightarrow> (suggest_choices_request \<Rightarrow> string list option)
     \<Rightarrow> (nat \<Rightarrow> nat \<times> string) \<Rightarrow> story \<Rightarrow> canvas_state \<Rightarrow> story list \<Rightarrow> story list \<times> canvas_state" where
  "handleAiSuggest sceneHook choicesHook env st cs stories =
     (case cv_currentSceneId cs of
        None \<Rightarrow> (stories, cs)
      | Some currentSceneId \<Rightarrow>
     (case find_scene (scenes st) (Some currentSceneId) of
        None \<Rightarrow> (stories, cs)
      | Some currentScene \<Rightarrow>
          if trim (scene_body currentScene) = [] then (stories, cs)
          else if trim (story_title st) = [] then (stories, cs)
          else if trim (description st) = [] then (stories, cs)
          else
            (case sceneHook \<lparr> storyTitle = trim (story_title st),
                               storyDescription = trim (description st),
                               currentSceneBody = trim (scene_body currentScene),
                               storySummary = None \<rparr> of
               None \<Rightarrow> (stories, cs)
             | Some result \<Rightarrow>
                 (let choicesResult = choicesHook \<lparr> sceneBody = sr_body result,
                                                     storyContext = Some (description st) \<rparr>;
                      created = createScene (story_id st) ''New Scene'' (fst (env 0)) (snd (env 0)) stories;
                      newScene = fst created;
                      s1 = snd created;
                      s2 = updateScene (story_id st) (scene_id newScene) (content_patch result) s1;
                      texts = (case choicesResult of None \<Rightarrow> [] | Some ts \<Rightarrow> ts);
                      s3 = add_choices (story_id st) (scene_id newScene) texts env 1 s2;
                      s4 = snd (addChoice (story_id st) currentSceneId (''Continue to '' @ sr_title result)
                                  (fst (env (Suc (length texts)))) (snd (env (Suc (length texts)))) s3);
                      s5 = (case find_scene (scenes st) (Some currentSceneId) of
                              None \<Rightarrow> s4
                            | Some sc \<Rightarrow>
                                (case choices sc of
                                   [] \<Rightarrow> s4
                                 | _ # _ \<Rightarrow> updateChoice (story_id st) currentSceneId
                                              (choice_id (last (choices sc)))
                                              (link_patch (scene_id newScene)) s4))
                  in (s5, cs\<lparr> cv_currentSceneId := Some (scene_id newScene) \<rparr>)))))"

section \<open>Snapshot Codec\<close>

text \<open>
  Modelled from the spec: the hook \<^verbatim>\<open>useLocalStorage\<close> that \<^verbatim>\<open>useStories\<close> imports is not
  among the sources. The spec gives the contract
  \<^verbatim>\<open>save(stories) -> blob\<close>, \<^verbatim>\<open>load(blob) -> sequence<Story>\<close>, lossless for all fields of
  the data model, with \<^verbatim>\<open>load\<close> of a missing or corrupt input yielding the empty
  collection. The blob is modelled as the content of the single named slot: nothing,
  text that is no document, or a JSON document.
\<close>

datatype json = JNull | JStr string | JArr "json list" | JObj "(string \<times> json) list"

datatype blob = Missing | Garbage | Document json

definition nullable_to_json :: "string option \<Rightarrow> json" where
  "nullable_to_json v = (case v of None \<Rightarrow> JNull | Some s \<Rightarrow> JStr s)"

definition choice_to_json :: "choice \<Rightarrow> json" where
  "choice_to_json c =
     JObj [(''id'', JStr (choice_id c)), (''text'', JStr (choice_text c)),
           (''targetSceneId'', nullable_to_json (targetSceneId c))]"

definition scene_to_json :: "scene \<Rightarrow> json" where
  "scene_to_json s =
     JObj [(''id'', JStr (scene_id s)), (''title'', JStr (scene_title s)),
           (''body'', JStr (scene_body s)), (''choices'', JArr (map choice_to_json (choices s)))]"

definition story_to_json :: "story \<Rightarrow> json" where
  "story_to_json st =
     JObj [(''id'', JStr (story_id st)), (''title'', JStr (story_title st)),
           (''description'', JStr (description st)),
           (''scenes'', JArr (map scene_to_json (scenes st))),
           (''startSceneId'', nullable_to_json (startSceneId st))]"

text \<open>
  Modelled from the spec: \<^verbatim>\<open>save(stories: sequence<Story>) -> blob\<close>, the write of the
  whole collection into the slot (the missing \<^verbatim>\<open>useLocalStorage\<close> setter).
\<close>

definition save :: "story list \<Rightarrow> blob" where
  "save stories = Document (JArr (map story_to_json stories))"

definition field :: "json \<Rightarrow> string \<Rightarrow> json option" where
  "field j k = (case j of JObj kvs \<Rightarrow> map_of kvs k | _ \<Rightarrow> None)"

definition as_string :: "json option \<Rightarrow> string option" where
  "as_string j = (case j of Some (JStr s) \<Rightarrow> Some s | _ \<Rightarrow> None)"

definition as_nullable :: "json option \<Rightarrow> string option option" where
  "as_nullable j = (case j of Some JNull \<Rightarrow> Some None | Some (JStr s) \<Rightarrow> Some (Some s) | _ \<Rightarrow> None)"

definition as_array :: "(json \<Rightarrow> 'a option) \<Rightarrow> json option \<Rightarrow> 'a list option" where
  "as_array f j = (case j of Some (JArr xs) \<Rightarrow> those (map f xs) | _ \<Rightarrow> None)"

definition choice_of_json :: "json \<Rightarrow> choice option" where
  "choice_of_json j =
     (case as_string (field j ''id'') of None \<Rightarrow> None | Some i \<Rightarrow>
      case as_string (field j ''text'') of None \<Rightarrow> None | Some t \<Rightarrow>
      case as_nullable (field j ''targetSceneId'') of None \<Rightarrow> None | Some g \<Rightarrow>
        Some \<lparr> choice_id = i, choice_text = t, targetSceneId = g \<rparr>)"

definition scene_of_json :: "json \<Rightarrow> scene option" where
  "scene_of_json j =
     (case as_string (field j ''id'') of None \<Rightarrow> None | Some i \<Rightarrow>
      case as_string (field j ''title'') of None \<Rightarrow> None | Some t \<Rightarrow>
      case as_string (field j ''body'') of None \<Rightarrow> None | Some b \<Rightarrow>
      case as_array choice_of_json (field j ''choices'') of None \<Rightarrow> None | Some cs \<Rightarrow>
        Some \<lparr> scene_id = i, scene_title = t, scene_body = b, choices = cs \<rparr>)"

definition story_of_json :: "json \<Rightarrow> story option" where
  "story_of_json j =
     (case as_string (field j ''id'') of None \<Rightarrow> None | Some i \<Rightarrow>
      case as_string (field j ''title'') of None \<Rightarrow> None | Some t \<Rightarrow>
      case as_string (field j ''description'') of None \<Rightarrow> None | Some d \<Rightarrow>
      case as_array scene_of_json (field j ''scenes'') of None \<Rightarrow> None | Some ss \<Rightarrow>
      case as_nullable (field j ''startSceneId'') of None \<Rightarrow> None | Some g \<Rightarrow>
        Some \<lparr> story_id = i, story_title = t, description = d, scenes = ss, startSceneId = g \<rparr>)"

text \<open>
  Modelled from the spec: \<^verbatim>\<open>load(blob) -> sequence<Story>\<close>, the read of the slot at start
  (the missing \<^verbatim>\<open>useLocalStorage\<close> initializer, with \<^verbatim>\<open>[]\<close> as its initial value); a
  missing or corrupt input yields the empty collection.
\<close>

definition load :: "blob \<Rightarrow> story list" where
  "load b =
     (case b of
        Missing \<Rightarrow> []
      | Garbage \<Rightarrow> []
      | Document j \<Rightarrow> (case as_array story_of_json (Some j) of None \<Rightarrow> [] | Some stories \<Rightarrow> stories))"

section \<open>Example stories\<close>

text \<open>
  A story of two scenes that link to each other, A (the start scene) and B, and the
  variations of it that the statements below are evaluated on.
\<close>

definition ex_sceneA :: scene where
  "ex_sceneA = \<lparr> scene_id = ''A'', scene_title = ''Gate'', scene_body = ''You stand at a gate.'',
                 choices = [\<lparr> choice_id = ''c1'', choice_text = ''Enter'', targetSceneId = Some ''B'' \<rparr>] \<rparr>"

definition ex_sceneB :: scene where
  "ex_sceneB = \<lparr> scene_id = ''B'', scene_title = ''Hall'', scene_body = ''A long hall.'',
                 choices = [\<lparr> choice_id = ''c2'', choice_text = ''Go back'', targetSceneId = Some ''A'' \<rparr>] \<rparr>"

definition ex_story :: story where
  "ex_story = \<lparr> story_id = ''s1'', story_title = ''T'', description = ''D'',
                scenes = [ex_sceneA, ex_sceneB], startSceneId = Some ''A'' \<rparr>"

definition ex_collide_story :: story where
  "ex_collide_story =
     \<lparr> story_id = ''s1'', story_title = ''T'', description = ''D'',
       scenes = [\<lparr> scene_id = ''A'', scene_title = ''Gate'', scene_body = ''You stand at a gate.'',
                   choices = [\<lparr> choice_id = ''1700000000000-k2j5h8d3x'', choice_text = ''Enter'',
                                targetSceneId = None \<rparr>] \<rparr>],
       startSceneId = Some ''A'' \<rparr>"

definition ex_id_patch :: story_patch where
  "ex_id_patch = \<lparr> stp_id = Some ''s2'', stp_title = None, stp_description = None,
                   stp_scenes = None, stp_startSceneId = None \<rparr>"

definition ex_title_patch :: story_patch where
  "ex_title_patch = \<lparr> stp_id = None, stp_title = Some ''Renamed'', stp_description = None,
                      stp_scenes = None, stp_startSceneId = None \<rparr>"

definition ex_dangling :: story where
  "ex_dangling = deleteScene ''s1'' ''B'' [ex_story] ! 0"

definition ex_nostart :: story where
  "ex_nostart = ex_story\<lparr> startSceneId := None \<rparr>"

definition ex_cave :: scene_result where
  "ex_cave = \<lparr> sr_title = ''Cave'', sr_body = ''You enter a cave.'' \<rparr>"


definition ex_editing :: canvas_state where
  "ex_editing = \<lparr> cv_currentSceneId = Some ''A'', cv_mode = EditMode \<rparr>"

definition ex_env :: "nat \<Rightarrow> nat \<times> string" where
  "ex_env k = (1700000000000 + k, ''0.k2j5h8d3xq7'')"


definition ex_single :: story where
  "ex_single = \<lparr> story_id = ''s1'', story_title = ''T'', description = ''D'',
                 scenes = [\<lparr> scene_id = ''A'', scene_title = ''Gate'',
                             scene_body = ''You stand at a gate.'', choices = [] \<rparr>],
                 startSceneId = Some ''A'' \<rparr>"

section \<open>Decimal rendering\<close>

lemma dec_nonempty: "dec n \<noteq> []"
  by (subst dec.simps) simp

lemma digit_char_inj: 
  assumes "a < 10" "b < 10" "digit_char a = digit_char b" shows "a = b"
proof -
  have "(of_char (digit_char a) :: nat) = of_char (digit_char b)" using assms(3) by simp
  then have "(48 + a) mod 256 = (48 + b) mod 256" by (simp add: digit_char_def)
  with assms(1,2) show ?thesis by simp
qed

lemma digit_char_not_dash: 
  assumes "a < 10" shows "digit_char a \<noteq> CHR ''-''"
proof
  assume "digit_char a = CHR ''-''"
  then have "(of_char (digit_char a) :: nat) = of_char (CHR ''-'')" by simp
  then have "(48 + a) mod 256 = 45" by (simp add: digit_char_def)
  with assms show False by simp
qed

lemma dec_no_dash: "CHR ''-'' \<notin> set (dec n)"
proof (induction n rule: dec.induct)
  case (1 n)
  show ?case
  proof (cases "n < 10")
    case True
    then show ?thesis using digit_char_not_dash[of n] by (subst dec.simps) auto
  next
    case False
    have "n mod 10 < 10" by simp
    then have "digit_char (n mod 10) \<noteq> CHR ''-''" by (rule digit_char_not_dash)
    with False 1 show ?thesis by (subst dec.simps) auto
  qed
qed

lemma dec_inj: "dec m = dec n \<Longrightarrow> m = n"
proof (induction m arbitrary: n rule: dec.induct)
  case (1 m)
  show ?case
  proof (cases "m < 10")
    case mlt: True
    show ?thesis
    proof (cases "n < 10")
      case True
      with mlt "1.prems" show ?thesis
        by (simp add: dec.simps[of m] dec.simps[of n] digit_char_inj)
    next
      case False
      with mlt "1.prems" have "[digit_char m] = dec (n div 10) @ [digit_char (n mod 10)]"
        by (simp add: dec.simps[of m] dec.simps[of n])
      then have "dec (n div 10) = []" by simp
      then show ?thesis using dec_nonempty by simp
    qed
  next
    case mge: False
    show ?thesis
    proof (cases "n < 10")
      case True
      with mge "1.prems" have "dec (m div 10) @ [digit_char (m mod 10)] = [digit_char n]"
        by (simp add: dec.simps[of m] dec.simps[of n])
      then have "dec (m div 10) = []" by simp
      then show ?thesis using dec_nonempty by simp
    next
      case False
      with mge "1.prems" have eq: "dec (m div 10) @ [digit_char (m mod 10)] = dec (n div 10) @ [digit_char (n mod 10)]"
        by (simp add: dec.simps[of m] dec.simps[of n])
      then have a: "dec (m div 10) = dec (n div 10)" and b: "digit_char (m mod 10) = digit_char (n mod 10)"
        by simp_all
      from a mge "1.IH" have "m div 10 = n div 10" by simp
      moreover from b have "m mod 10 = n mod 10" by (intro digit_char_inj) simp_all
      ultimately show ?thesis by (metis div_mult_mod_eq)
    qed
  qed
qed

lemma split_at_sep:
  assumes "c \<notin> set xs" "c \<notin> set ys" "xs @ c # s = ys @ c # t"
  shows "xs = ys \<and> s = t"
  using assms
proof (induction xs arbitrary: ys)
  case Nil
  then show ?case by (cases ys) auto
next
  case (Cons x xs)
  then show ?case by (cases ys) auto
qed

lemma filter_remove1:
  "distinct (map f xs) \<Longrightarrow> x \<in> set xs \<Longrightarrow> filter (\<lambda>s. f s \<noteq> f x) xs = remove1 x xs"
proof (induction xs)
  case Nil
  then show ?case by simp
next
  case (Cons a xs)
  show ?case
  proof (cases "a = x")
    case True
    with Cons.prems have "\<forall>s\<in>set xs. f s \<noteq> f x" by (auto simp: image_iff)
    then have "filter (\<lambda>s. f s \<noteq> f x) xs = xs" by simp
    with True show ?thesis by simp
  next
    case False
    with Cons.prems have "x \<in> set xs" by simp
    with Cons.prems have "f a \<noteq> f x" by (auto simp: image_iff)
    with Cons False \<open>x \<in> set xs\<close> show ?thesis by simp
  qed
qed

text \<open>Facts for evaluating the definitions on the example stories.\<close>

lemma dc:
  "digit_char 0 = CHR ''0''" "digit_char (Suc 0) = CHR ''1''" "digit_char 2 = CHR ''2''"
  "digit_char 3 = CHR ''3''" "digit_char 4 = CHR ''4''" "digit_char 5 = CHR ''5''"
  "digit_char 6 = CHR ''6''" "digit_char 7 = CHR ''7''" "digit_char 8 = CHR ''8''"
  "digit_char 9 = CHR ''9''"
  unfolding digit_char_def by code_simp+

lemmas eval_id = generateId_def substring_def dec.simps dc

lemmas eval_store = createScene_def updateScene_def addChoice_def updateChoice_def
  merge_scene_def merge_choice_def spread_def content_patch_def link_patch_def Let_def

lemma trim_examples:
  "trim ''You stand at a gate.'' = ''You stand at a gate.''" "trim ''T'' = ''T''" "trim ''D'' = ''D''"
  by (simp_all add: trim_def is_space_def)

section \<open>Store operations\<close>

subsection \<open>deleteScene\<close>

lemma deleteScene_nth:
  "i < length stories \<Longrightarrow>
   deleteScene storyId sceneId stories ! i =
     (if story_id (stories ! i) = storyId
      then (stories ! i)\<lparr> scenes := filter (\<lambda>s. scene_id s \<noteq> sceneId) (scenes (stories ! i)),
                           startSceneId := (if startSceneId (stories ! i) = Some sceneId then None
                                            else startSceneId (stories ! i)) \<rparr>
      else stories ! i)"
  by (simp add: deleteScene_def)

text \<open>
  Claim C5. In the story that \<open>storyId\<close> names, \<^const>\<open>deleteScene\<close> keeps exactly the
  scenes whose identifier is not \<open>sceneId\<close>, each as it was and in the same order (so a
  choice of another scene that points at the deleted scene keeps its target); when scene
  identifiers are distinct this removes the one scene \<open>s\<close> with that identifier.
  \<open>startSceneId\<close> becomes \<open>null\<close> when it referenced the deleted scene and is unchanged
  otherwise. The story's identifier, title and description, the number of stories and
  every other story are unchanged.
\<close>

theorem deleteScene_frame:
  assumes "i < length stories" and "story_id (stories ! i) = storyId"
  shows "scenes (deleteScene storyId sceneId stories ! i)
           = filter (\<lambda>s. scene_id s \<noteq> sceneId) (scenes (stories ! i))
       \<and> (\<forall>s. s \<in> set (scenes (stories ! i)) \<and> scene_id s = sceneId
                \<and> distinct (map scene_id (scenes (stories ! i)))
              \<longrightarrow> scenes (deleteScene storyId sceneId stories ! i) = remove1 s (scenes (stories ! i)))
       \<and> (startSceneId (stories ! i) = Some sceneId
              \<longrightarrow> startSceneId (deleteScene storyId sceneId stories ! i) = None)
       \<and> (startSceneId (stories ! i) \<noteq> Some sceneId
              \<longrightarrow> startSceneId (deleteScene storyId sceneId stories ! i) = startSceneId (stories ! i))
       \<and> story_id (deleteScene storyId sceneId stories ! i) = story_id (stories ! i)
       \<and> story_title (deleteScene storyId sceneId stories ! i) = story_title (stories ! i)
       \<and> description (deleteScene storyId sceneId stories ! i) = description (stories ! i)
       \<and> length (deleteScene storyId sceneId stories) = length stories
       \<and> (\<forall>j < length stories. story_id (stories ! j) \<noteq> storyId
              \<longrightarrow> deleteScene storyId sceneId stories ! j = stories ! j)"
proof -
  let ?st = "stories ! i" and ?st' = "deleteScene storyId sceneId stories ! i"
  have sc: "scenes ?st' = filter (\<lambda>s. scene_id s \<noteq> sceneId) (scenes ?st)"
    using assms by (simp add: deleteScene_nth)
  have rm: "scenes ?st' = remove1 s (scenes ?st)"
    if "s \<in> set (scenes ?st)" "scene_id s = sceneId" "distinct (map scene_id (scenes ?st))" for s
    using that sc filter_remove1[of scene_id "scenes ?st" s] by simp
  have others: "deleteScene storyId sceneId stories ! j = stories ! j"
    if "j < length stories" "story_id (stories ! j) \<noteq> storyId" for j
    using that by (simp add: deleteScene_nth)
  have len: "length (deleteScene storyId sceneId stories) = length stories"
    by (simp add: deleteScene_def)
  show ?thesis
    using sc rm others len assms by (simp add: deleteScene_nth)
qed

theorem deleteScene_frame_witness:
  "scenes (deleteScene ''s1'' ''A'' [ex_story] ! 0) = [ex_sceneB]
   \<and> targetSceneId (hd (choices (hd (scenes (deleteScene ''s1'' ''A'' [ex_story] ! 0))))) = Some ''A''
   \<and> startSceneId (deleteScene ''s1'' ''A'' [ex_story] ! 0) = None
   \<and> startSceneId (deleteScene ''s1'' ''B'' [ex_story] ! 0) = Some ''A''
   \<and> scenes (deleteScene ''s1'' ''B'' [ex_story] ! 0) = remove1 ex_sceneB [ex_sceneA, ex_sceneB]"
  using deleteScene_frame[of 0 "[ex_story]" "''s1''" "''A''"]
        deleteScene_frame[of 0 "[ex_story]" "''s1''" "''B''"]
  by (simp add: ex_story_def ex_sceneA_def ex_sceneB_def)

subsection \<open>addChoice and deleteChoice\<close>

lemma delete_after_append:
  "i \<notin> choice_id ` set cs \<Longrightarrow>
   filter (\<lambda>c. choice_id c \<noteq> i) (cs @ [\<lparr> choice_id = i, choice_text = t, targetSceneId = g \<rparr>]) = cs"
  by (induction cs) auto

text \<open>
  \<^const>\<open>addChoice\<close> followed by \<^const>\<open>deleteChoice\<close> with the identifier of the returned
  choice gives back the collection whenever the identifier that \<^const>\<open>generateId\<close> allocates
  is not already the identifier of a choice of the scene.
\<close>

lemma addChoice_deleteChoice_inverse:
  assumes fresh: "\<forall>st \<in> set stories. story_id st = storyId \<longrightarrow>
            (\<forall>s \<in> set (scenes st). scene_id s = sceneId \<longrightarrow>
               generateId now rnd \<notin> choice_id ` set (choices s))"
  shows "deleteChoice storyId sceneId
           (choice_id (fst (addChoice storyId sceneId choiceText now rnd stories)))
           (snd (addChoice storyId sceneId choiceText now rnd stories)) = stories"
proof -
  have "\<And>st. st \<in> set stories \<Longrightarrow> story_id st = storyId \<Longrightarrow>
          map (\<lambda>s. if scene_id s = sceneId
                    then s\<lparr> choices := filter (\<lambda>c. choice_id c \<noteq> generateId now rnd)
                               (choices s @ [\<lparr> choice_id = generateId now rnd, choice_text = choiceText,
                                               targetSceneId = None \<rparr>]) \<rparr>
                    else s) (scenes st) = scenes st"
  proof -
    fix st assume st: "st \<in> set stories" "story_id st = storyId"
    show "map (\<lambda>s. if scene_id s = sceneId
                    then s\<lparr> choices := filter (\<lambda>c. choice_id c \<noteq> generateId now rnd)
                               (choices s @ [\<lparr> choice_id = generateId now rnd, choice_text = choiceText,
                                               targetSceneId = None \<rparr>]) \<rparr>
                    else s) (scenes st) = scenes st"
    proof (rule map_idI)
      fix s assume "s \<in> set (scenes st)"
      with fresh st have "scene_id s = sceneId \<Longrightarrow> generateId now rnd \<notin> choice_id ` set (choices s)"
        by blast
      then show "(if scene_id s = sceneId
                  then s\<lparr> choices := filter (\<lambda>c. choice_id c \<noteq> generateId now rnd)
                               (choices s @ [\<lparr> choice_id = generateId now rnd, choice_text = choiceText,
                                               targetSceneId = None \<rparr>]) \<rparr>
                  else s) = s"
        using delete_after_append[of "generateId now rnd" "choices s" choiceText None] by simp
    qed
  qed
  then have "map (\<lambda>st. if story_id st = storyId
             then st\<lparr> scenes := map (\<lambda>s. if scene_id s = sceneId
                    then s\<lparr> choices := filter (\<lambda>c. choice_id c \<noteq> generateId now rnd)
                               (choices s @ [\<lparr> choice_id = generateId now rnd, choice_text = choiceText,
                                               targetSceneId = None \<rparr>]) \<rparr>
                    else s) (scenes st) \<rparr> else st) stories = stories"
    by (intro map_idI) simp
  moreover have "deleteChoice storyId sceneId
           (choice_id (fst (addChoice storyId sceneId choiceText now rnd stories)))
           (snd (addChoice storyId sceneId choiceText now rnd stories))
       = map (\<lambda>st. if story_id st = storyId
             then st\<lparr> scenes := map (\<lambda>s. if scene_id s = sceneId
                    then s\<lparr> choices := filter (\<lambda>c. choice_id c \<noteq> generateId now rnd)
                               (choices s @ [\<lparr> choice_id = generateId now rnd, choice_text = choiceText,
                                               targetSceneId = None \<rparr>]) \<rparr>
                    else s) (scenes st) \<rparr> else st) stories"
    by (simp add: deleteChoice_def addChoice_def Let_def comp_def if_distrib cong: if_cong)
  ultimately show ?thesis by simp
qed

text \<open>
  Claim C9, on the code. The scene holds a choice created in the same millisecond with a
  random string that shares its first nine digits with the new one, so \<^const>\<open>generateId\<close>
  hands \<^const>\<open>addChoice\<close> an identifier that is in use. \<^const>\<open>deleteChoice\<close> filters by
  identifier and removes the prior choice together with the new one: the choice sequence
  is not restored.
\<close>

theorem addChoice_deleteChoice_collision:
  "deleteChoice ''s1'' ''A''
     (choice_id (fst (addChoice ''s1'' ''A'' ''New choice'' 1700000000000 ''0.k2j5h8d3xa1'' [ex_collide_story])))
     (snd (addChoice ''s1'' ''A'' ''New choice'' 1700000000000 ''0.k2j5h8d3xa1'' [ex_collide_story]))
   \<noteq> [ex_collide_story]"
  by (simp add: deleteChoice_def addChoice_def ex_collide_story_def eval_id Let_def)

subsection \<open>updateStory, updateScene, updateChoice\<close>

lemma spread_None [simp]: "spread x None = x"
  by (simp add: spread_def)

lemma spread_Some [simp]: "spread x (Some v) = v"
  by (simp add: spread_def)

lemma merge_choice_keeps:
  "cp_id r = None \<Longrightarrow> choice_id (merge_choice c r) = choice_id c"
  by (simp add: merge_choice_def)

lemma merge_scene_keeps:
  "sp_id q = None \<Longrightarrow> scene_id (merge_scene sc q) = scene_id sc"
  by (simp add: merge_scene_def)

lemma merge_story_keeps:
  "stp_id p = None \<Longrightarrow> stp_scenes p = None \<Longrightarrow>
   story_id (merge_story st p) = story_id st \<and> scenes (merge_story st p) = scenes st"
  by (simp add: merge_story_def)

lemma updateScene_scene_ids:
  assumes "sp_id q = None"
  shows "map scene_id (map (\<lambda>sc. if scene_id sc = sceneId then merge_scene sc q else sc) xs)
           = map scene_id xs"
  using assms by (induction xs) (simp_all add: merge_scene_keeps)

lemma updateChoice_choice_ids:
  assumes "cp_id r = None"
  shows "map choice_id (map (\<lambda>c. if choice_id c = choiceId then merge_choice c r else c) cs)
           = map choice_id cs"
  using assms by (induction cs) (simp_all add: merge_choice_keeps)

lemma updateChoice_scene_frame:
  assumes "cp_id r = None"
  shows "map (\<lambda>sc. (scene_id sc, scene_title sc, scene_body sc, map choice_id (choices sc)))
           (map (\<lambda>sc. if scene_id sc = sceneId
                       then sc\<lparr> choices := map (\<lambda>c. if choice_id c = choiceId then merge_choice c r else c)
                                                (choices sc) \<rparr>
                       else sc) xs)
         = map (\<lambda>sc. (scene_id sc, scene_title sc, scene_body sc, map choice_id (choices sc))) xs"
  by (induction xs) (simp_all add: updateChoice_choice_ids[OF assms] del: map_map map_eq_conv)

text \<open>
  Claim C8. A patch of the mutable fields carries no key \<^verbatim>\<open>id\<close> (and, for a story, no key
  \<^verbatim>\<open>scenes\<close>). Under such a patch \<^const>\<open>updateStory\<close> leaves the identifier and the scenes
  of every story as they were, so only title, description and start scene may change;
  \<^const>\<open>updateScene\<close> leaves every story's own fields and the identifiers of its scenes as
  they were, so only the title, body and choices of a scene may change;
  \<^const>\<open>updateChoice\<close> leaves every story's own fields, every scene's identifier, title and
  body and the identifiers of its choices as they were, so only the text and target of a
  choice may change.
\<close>

theorem update_keeps_ids:
  "(stp_id p = None \<and> stp_scenes p = None \<longrightarrow>
      map (\<lambda>st. (story_id st, scenes st)) (updateStory storyId p stories)
        = map (\<lambda>st. (story_id st, scenes st)) stories)
   \<and> (sp_id q = None \<longrightarrow>
      map (\<lambda>st. (story_id st, story_title st, description st, startSceneId st,
                  map scene_id (scenes st))) (updateScene storyId sceneId q stories)
        = map (\<lambda>st. (story_id st, story_title st, description st, startSceneId st,
                    map scene_id (scenes st))) stories)
   \<and> (cp_id r = None \<longrightarrow>
      map (\<lambda>st. (story_id st, story_title st, description st, startSceneId st,
                  map (\<lambda>sc. (scene_id sc, scene_title sc, scene_body sc, map choice_id (choices sc)))
                      (scenes st)))
          (updateChoice storyId sceneId choiceId r stories)
        = map (\<lambda>st. (story_id st, story_title st, description st, startSceneId st,
                    map (\<lambda>sc. (scene_id sc, scene_title sc, scene_body sc, map choice_id (choices sc)))
                        (scenes st)))
              stories)"
proof (intro conjI impI)
  assume "stp_id p = None \<and> stp_scenes p = None"
  then have keep: "story_id (merge_story st p) = story_id st \<and> scenes (merge_story st p) = scenes st" for st
    by (simp add: merge_story_keeps)
  show "map (\<lambda>st. (story_id st, scenes st)) (updateStory storyId p stories)
          = map (\<lambda>st. (story_id st, scenes st)) stories"
    by (induction stories) (simp_all add: updateStory_def keep)
next
  assume q: "sp_id q = None"
  show "map (\<lambda>st. (story_id st, story_title st, description st, startSceneId st,
                  map scene_id (scenes st))) (updateScene storyId sceneId q stories)
        = map (\<lambda>st. (story_id st, story_title st, description st, startSceneId st,
                    map scene_id (scenes st))) stories"
    by (induction stories) (simp_all add: updateScene_def updateScene_scene_ids[OF q] del: map_map)
next
  assume r: "cp_id r = None"
  show "map (\<lambda>st. (story_id st, story_title st, description st, startSceneId st,
                  map (\<lambda>sc. (scene_id sc, scene_title sc, scene_body sc, map choice_id (choices sc)))
                      (scenes st)))
          (updateChoice storyId sceneId choiceId r stories)
        = map (\<lambda>st. (story_id st, story_title st, description st, startSceneId st,
                    map (\<lambda>sc. (scene_id sc, scene_title sc, scene_body sc, map choice_id (choices sc)))
                        (scenes st)))
              stories"
    by (induction stories) (simp_all add: updateChoice_def updateChoice_scene_frame[OF r] del: map_map)
qed

theorem update_keeps_ids_witness:
  "map (\<lambda>st. (story_id st, scenes st)) (updateStory ''s1'' ex_title_patch [ex_story])
      = [(''s1'', [ex_sceneA, ex_sceneB])]
   \<and> story_title (hd (updateStory ''s1'' ex_title_patch [ex_story])) = ''Renamed''
   \<and> map (\<lambda>st. (story_id st, map scene_id (scenes st)))
        (updateScene ''s1'' ''A'' (content_patch \<lparr> sr_title = ''Cave'', sr_body = ''You enter a cave.'' \<rparr>) [ex_story])
      = [(''s1'', [''A'', ''B''])]
   \<and> map (\<lambda>st. (story_id st, map (\<lambda>sc. (scene_id sc, map choice_id (choices sc))) (scenes st)))
        (updateChoice ''s1'' ''A'' ''c1'' (link_patch ''B'') [ex_story])
      = [(''s1'', [(''A'', [''c1'']), (''B'', [''c2''])])]"
proof -
  have a: "map (\<lambda>st. (story_id st, scenes st)) (updateStory ''s1'' ex_title_patch [ex_story])
      = [(''s1'', [ex_sceneA, ex_sceneB])]"
    using update_keeps_ids[of ex_title_patch "''s1''" "[ex_story]"]
    by (simp add: ex_title_patch_def ex_story_def)
  have t: "story_title (hd (updateStory ''s1'' ex_title_patch [ex_story])) = ''Renamed''"
    by (simp add: updateStory_def merge_story_def ex_title_patch_def ex_story_def)
  have b: "map (\<lambda>st. (story_id st, story_title st, description st, startSceneId st, map scene_id (scenes st)))
        (updateScene ''s1'' ''A'' (content_patch \<lparr> sr_title = ''Cave'', sr_body = ''You enter a cave.'' \<rparr>) [ex_story])
      = [(''s1'', ''T'', ''D'', Some ''A'', [''A'', ''B''])]"
    using update_keeps_ids[of _ "''s1''" "[ex_story]"
            "content_patch \<lparr> sr_title = ''Cave'', sr_body = ''You enter a cave.'' \<rparr>" "''A''"]
    by (simp add: content_patch_def ex_story_def ex_sceneA_def ex_sceneB_def)
  have c: "map (\<lambda>st. (story_id st, story_title st, description st, startSceneId st,
                  map (\<lambda>sc. (scene_id sc, scene_title sc, scene_body sc, map choice_id (choices sc)))
                      (scenes st)))
        (updateChoice ''s1'' ''A'' ''c1'' (link_patch ''B'') [ex_story])
      = [(''s1'', ''T'', ''D'', Some ''A'',
          [(''A'', ''Gate'', ''You stand at a gate.'', [''c1'']), (''B'', ''Hall'', ''A long hall.'', [''c2''])])]"
    using update_keeps_ids[of _ "''s1''" "[ex_story]" _ "''A''" "link_patch ''B''" "''c1''"]
    by (simp add: link_patch_def ex_story_def ex_sceneA_def ex_sceneB_def)
  from b have b': "map (\<lambda>st. (story_id st, map scene_id (scenes st)))
        (updateScene ''s1'' ''A'' (content_patch \<lparr> sr_title = ''Cave'', sr_body = ''You enter a cave.'' \<rparr>) [ex_story])
      = [(''s1'', [''A'', ''B''])]"
    by (auto simp: updateScene_def)
  from c have c': "map (\<lambda>st. (story_id st, map (\<lambda>sc. (scene_id sc, map choice_id (choices sc))) (scenes st)))
        (updateChoice ''s1'' ''A'' ''c1'' (link_patch ''B'') [ex_story])
      = [(''s1'', [(''A'', [''c1'']), (''B'', [''c2''])])]"
    by (auto simp: updateChoice_def)
  from a t b' c' show ?thesis by simp
qed

text \<open>
  The patch types admit more than the mutable fields: \<^verbatim>\<open>Partial<Story>\<close> has the key
  \<^verbatim>\<open>id\<close>, and a patch that carries it gives the story that identifier. No caller in the
  components passes one.
\<close>

lemma updateStory_id_key_overwrites:
  "stp_id p = Some i \<Longrightarrow>
   map story_id (updateStory storyId p stories)
     = map (\<lambda>st. if story_id st = storyId then i else story_id st) stories"
  by (induction stories) (simp_all add: updateStory_def merge_story_def)

lemma updateStory_overwrites_id:
  "map story_id (updateStory ''s1'' ex_id_patch [ex_story]) \<noteq> map story_id [ex_story]"
  by (simp add: updateStory_def merge_story_def ex_id_patch_def ex_story_def)

subsection \<open>Identifiers of created entities\<close>

text \<open>
  Every creating operation names its entity by \<^const>\<open>generateId\<close>, and two calls of
  \<^const>\<open>generateId\<close> give the same identifier exactly when they read the same millisecond
  and their random strings agree on the characters at positions 2 to 10.
\<close>

lemma created_ids_equal_iff:
  "story_id (fst (createStory title descr t1 r1 stories)) = generateId t1 r1
   \<and> scene_id (fst (createScene storyId title t1 r1 stories)) = generateId t1 r1
   \<and> choice_id (fst (addChoice storyId sceneId choiceText t1 r1 stories)) = generateId t1 r1
   \<and> (generateId t1 r1 = generateId t2 r2) = (t1 = t2 \<and> substring r1 2 11 = substring r2 2 11)"
proof -
  have "t1 = t2 \<and> substring r1 2 11 = substring r2 2 11" if eq: "generateId t1 r1 = generateId t2 r2"
  proof -
    from eq have "dec t1 @ CHR ''-'' # substring r1 2 11 = dec t2 @ CHR ''-'' # substring r2 2 11"
      by (simp add: generateId_def)
    then have "dec t1 = dec t2 \<and> substring r1 2 11 = substring r2 2 11"
      by (rule split_at_sep[OF dec_no_dash dec_no_dash])
    then show ?thesis using dec_inj by blast
  qed
  moreover have "generateId t1 r1 = generateId t2 r2" if "t1 = t2 \<and> substring r1 2 11 = substring r2 2 11"
    using that by (simp add: generateId_def)
  ultimately have "(generateId t1 r1 = generateId t2 r2) = (t1 = t2 \<and> substring r1 2 11 = substring r2 2 11)"
    by blast
  then show ?thesis
    by (simp add: createStory_def createScene_def addChoice_def Let_def)
qed

text \<open>
  Claim C7, on the code. \<^verbatim>\<open>generateId\<close> is documented to "generate a unique ID for
  stories, scenes, and choices". A scene and a choice created in the same millisecond,
  with two different random strings that share their first nine digits, get the same
  identifier.
\<close>

theorem created_ids_collide:
  "scene_id (fst (createScene ''s1'' ''New Scene'' 1700000000000 ''0.k2j5h8d3xq7'' [ex_story]))
     = choice_id (fst (addChoice ''s1'' ''A'' ''New choice'' 1700000000000 ''0.k2j5h8d3xa1''
                        (snd (createScene ''s1'' ''New Scene'' 1700000000000 ''0.k2j5h8d3xq7'' [ex_story]))))
   \<and> ''0.k2j5h8d3xq7'' \<noteq> ''0.k2j5h8d3xa1''"
  by (simp add: createScene_def addChoice_def generateId_def substring_def Let_def)

section \<open>Snapshot round trip\<close>

lemma choice_roundtrip: "choice_of_json (choice_to_json c) = Some c"
  by (cases "targetSceneId c")
     (simp_all add: choice_of_json_def choice_to_json_def field_def as_string_def as_nullable_def
        nullable_to_json_def)

lemma choices_roundtrip: "those (map (choice_of_json \<circ> choice_to_json) cs) = Some cs"
  by (induction cs) (simp_all add: choice_roundtrip)

lemma scene_roundtrip: "scene_of_json (scene_to_json s) = Some s"
  by (simp add: scene_of_json_def scene_to_json_def field_def as_string_def as_array_def
        choices_roundtrip)

lemma scenes_roundtrip: "those (map (scene_of_json \<circ> scene_to_json) ss) = Some ss"
  by (induction ss) (simp_all add: scene_roundtrip)

lemma story_roundtrip: "story_of_json (story_to_json st) = Some st"
  by (cases "startSceneId st")
     (simp_all add: story_of_json_def story_to_json_def field_def as_string_def as_array_def
        as_nullable_def nullable_to_json_def scenes_roundtrip)

lemma stories_roundtrip: "those (map (story_of_json \<circ> story_to_json) sts) = Some sts"
  by (induction sts) (simp_all add: story_roundtrip)

text \<open>
  Claim C6. Loading what was saved gives back the collection, field for field: every
  story with its identifier, title, description, start scene and scenes, every scene with
  its choices, every choice with its target, whatever the targets point at (so also for
  the empty collection, a story without scenes and scenes that link to each other in a
  cycle). A missing slot and a slot that holds no document load as the empty collection.
\<close>

theorem load_save: "load (save stories) = stories \<and> load Missing = [] \<and> load Garbage = []"
proof -
  have "as_array story_of_json (Some (JArr (map story_to_json stories))) = Some stories"
    by (simp add: as_array_def stories_roundtrip)
  then have "load (save stories) = stories"
    by (simp add: load_def save_def)
  moreover have "load Missing = []" and "load Garbage = []"
    by (simp_all add: load_def)
  ultimately show ?thesis by simp
qed

section \<open>Playback\<close>

subsection \<open>Selecting a choice\<close>

text \<open>
  Claim C1, amended. Selecting a choice whose target \<open>t\<close> is a non-empty identifier that
  names no scene of the story sets \<open>currentSceneId\<close> to \<open>t\<close> all the same, in both
  components. The current scene then resolves to nothing: StoryPreview, when it was
  showing a scene, shows its scene-not-found message, StoryCanvas its no-scene-selected
  view (the effect that selects the first scene does not fire, the identifier being
  truthy), and neither shows a choice. Only a target that is \<^verbatim>\<open>null\<close> or the empty string
  is inert. The handlers are total functions with no failing branch: the source has no
  \<^verbatim>\<open>throw\<close> and dereferences nothing that can be undefined.
\<close>

theorem handleChoice_dangling:
  assumes "t \<noteq> []" and "find_scene (scenes st) (Some t) = None"
  shows "pv_currentSceneId (preview_handleChoice (Some t) ps) = Some t
       \<and> preview_choices (preview_render st (preview_handleChoice (Some t) ps)) = []
       \<and> (preview_render st ps = Playing cur \<longrightarrow>
             preview_render st (preview_handleChoice (Some t) ps) = SceneNotFound)
       \<and> cv_currentSceneId (canvas_handleChoice (Some t) cs) = Some t
       \<and> canvas_effect st (canvas_handleChoice (Some t) cs) = canvas_handleChoice (Some t) cs
       \<and> canvas_render st (canvas_handleChoice (Some t) cs) = NoSceneSelected
       \<and> preview_handleChoice None ps = ps \<and> preview_handleChoice (Some []) ps = ps
       \<and> canvas_handleChoice None cs = cs \<and> canvas_handleChoice (Some []) cs = cs"
proof -
  have t: "truthy (Some t)" and f: "\<not> truthy None" "\<not> truthy (Some [])"
    using assms(1) by (simp_all add: truthy_def)
  have pv: "preview_handleChoice (Some t) ps = ps\<lparr> pv_currentSceneId := Some t, pv_customInput := [] \<rparr>"
    using t by (simp add: preview_handleChoice_def)
  have cv: "canvas_handleChoice (Some t) cs = cs\<lparr> cv_currentSceneId := Some t \<rparr>"
    using t by (simp add: canvas_handleChoice_def)
  have r1: "preview_choices (preview_render st (preview_handleChoice (Some t) ps)) = []"
    using assms(2) by (simp add: pv preview_render_def preview_choices_def)
  have r2: "preview_render st (preview_handleChoice (Some t) ps) = SceneNotFound"
    if "preview_render st ps = Playing cur"
    using that assms(2) by (simp add: pv preview_render_def split: if_splits)
  have r3: "canvas_render st (canvas_handleChoice (Some t) cs) = NoSceneSelected"
    using assms(2) by (simp add: cv canvas_render_def)
  have r4: "canvas_effect st (canvas_handleChoice (Some t) cs) = canvas_handleChoice (Some t) cs"
    using t by (simp add: cv canvas_effect_def)
  show ?thesis
    using r1 r2 r3 r4 t f by (simp add: preview_handleChoice_def canvas_handleChoice_def)
qed

lemma ex_dangling_eq:
  "ex_dangling = \<lparr> story_id = ''s1'', story_title = ''T'', description = ''D'',
                   scenes = [ex_sceneA], startSceneId = Some ''A'' \<rparr>"
  by (simp add: ex_dangling_def deleteScene_def ex_story_def ex_sceneA_def ex_sceneB_def)

theorem handleChoice_dangling_witness:
  "pv_currentSceneId (preview_handleChoice (Some ''B'') (preview_init ex_dangling)) = Some ''B''
   \<and> preview_render ex_dangling (preview_init ex_dangling) = Playing ex_sceneA
   \<and> preview_render ex_dangling (preview_handleChoice (Some ''B'') (preview_init ex_dangling)) = SceneNotFound
   \<and> canvas_render ex_dangling (canvas_handleChoice (Some ''B'') (canvas_init PlayMode ex_dangling)) = NoSceneSelected"
proof -
  have a: "''B'' \<noteq> []" by simp
  have b: "find_scene (scenes ex_dangling) (Some ''B'') = None"
    by (simp add: ex_dangling_eq find_scene_def ex_sceneA_def)
  have c: "preview_render ex_dangling (preview_init ex_dangling) = Playing ex_sceneA"
    by (simp add: ex_dangling_eq preview_render_def preview_init_def find_scene_def ex_sceneA_def truthy_def)
  show ?thesis
    using handleChoice_dangling[OF a b, of "preview_init ex_dangling" ex_sceneA "canvas_init PlayMode ex_dangling"] c
    by simp
qed

text \<open>
  Claim C1 as stated fails. After scene B is deleted, the choice of scene A still targets
  B; selecting it moves \<open>currentSceneId\<close> from A to B in both components, which is not what
  a \<^verbatim>\<open>null\<close> target does.
\<close>

theorem handleChoice_dangling_moves:
  "targetSceneId (hd (choices (hd (scenes ex_dangling)))) = Some ''B''
   \<and> find_scene (scenes ex_dangling) (Some ''B'') = None
   \<and> pv_currentSceneId (preview_init ex_dangling) = Some ''A''
   \<and> pv_currentSceneId (preview_handleChoice (Some ''B'') (preview_init ex_dangling)) = Some ''B''
   \<and> cv_currentSceneId (canvas_init PlayMode ex_dangling) = Some ''A''
   \<and> cv_currentSceneId (canvas_handleChoice (Some ''B'') (canvas_init PlayMode ex_dangling)) = Some ''B''
   \<and> preview_handleChoice (Some ''B'') (preview_init ex_dangling)
        \<noteq> preview_handleChoice None (preview_init ex_dangling)"
  by (simp add: ex_dangling_eq find_scene_def ex_sceneA_def preview_init_def preview_handleChoice_def
        canvas_init_def canvas_initial_scene_def canvas_handleChoice_def truthy_def)

subsection \<open>Initialization\<close>

text \<open>
  Claim C2, amended. StoryPreview starts at \<open>startSceneId\<close>, and while \<open>startSceneId\<close> is
  falsy or names no scene it renders the cannot-start message, without a choice, whatever
  its state. StoryCanvas starts at \<open>startSceneId\<close> when that is truthy; when it names no
  scene the canvas shows its no-scene-selected view without a choice. When
  \<open>startSceneId\<close> is falsy the canvas starts at the first scene of the story and plays it,
  and only a story without scenes gives the no-scene-selected view.
\<close>

theorem playback_init:
  "pv_currentSceneId (preview_init st) = startSceneId st
   \<and> (\<not> truthy (startSceneId st) \<or> find_scene (scenes st) (startSceneId st) = None \<longrightarrow>
        (\<forall>ps. preview_render st ps = CannotStart \<and> preview_choices (preview_render st ps) = []))
   \<and> (truthy (startSceneId st) \<longrightarrow> cv_currentSceneId (canvas_init m st) = startSceneId st)
   \<and> (truthy (startSceneId st) \<and> find_scene (scenes st) (startSceneId st) = None \<longrightarrow>
        canvas_render st (canvas_effect st (canvas_init m st)) = NoSceneSelected
        \<and> canvas_choices (canvas_render st (canvas_effect st (canvas_init m st))) = [])
   \<and> (\<not> truthy (startSceneId st) \<and> scenes st = [] \<longrightarrow>
        cv_currentSceneId (canvas_init m st) = None
        \<and> canvas_render st (canvas_effect st (canvas_init m st)) = NoSceneSelected)
   \<and> (\<forall>s rest. \<not> truthy (startSceneId st) \<and> scenes st = s # rest \<longrightarrow>
        cv_currentSceneId (canvas_init m st) = Some (scene_id s)
        \<and> canvas_render st (canvas_init PlayMode st) = PlayScene s)"
  by (auto simp: preview_init_def preview_render_def preview_choices_def canvas_init_def
        canvas_initial_scene_def canvas_render_def canvas_effect_def canvas_choices_def
        find_scene_def truthy_def split: option.splits list.splits)

theorem playback_init_witness:
  "preview_render ex_nostart (preview_init ex_nostart) = CannotStart
   \<and> cv_currentSceneId (canvas_init PlayMode ex_nostart) = Some ''A''
   \<and> canvas_render ex_nostart (canvas_init PlayMode ex_nostart) = PlayScene ex_sceneA
   \<and> cv_currentSceneId (canvas_init PlayMode ex_story) = Some ''A''"
  using playback_init[of ex_nostart PlayMode] playback_init[of ex_story PlayMode]
  by (simp add: ex_nostart_def ex_story_def truthy_def ex_sceneA_def)

text \<open>
  Claim C2 as stated fails: for a story whose \<open>startSceneId\<close> is \<^verbatim>\<open>null\<close>, StoryCanvas
  starts at the first scene and shows its choices.
\<close>

theorem canvas_init_falls_back:
  "startSceneId ex_nostart = None
   \<and> cv_currentSceneId (canvas_init PlayMode ex_nostart) = Some ''A''
   \<and> canvas_choices (canvas_render ex_nostart (canvas_init PlayMode ex_nostart)) = choices ex_sceneA
   \<and> choices ex_sceneA \<noteq> []"
  by (simp add: ex_nostart_def ex_story_def ex_sceneA_def canvas_init_def canvas_initial_scene_def
        canvas_render_def canvas_choices_def find_scene_def truthy_def)

subsection \<open>Custom free-text action\<close>









section \<open>Generator failures\<close>





section \<open>AI scene suggestion (StoryCanvas, handleAiSuggest)\<close>

text \<open>
  Claim C3, on the code. The generator answers with the scene "Cave" and suggests no
  choices. Started from a scene without choices, the flow leaves the originating scene
  with the one new choice, whose \<open>targetSceneId\<close> is \<^verbatim>\<open>null\<close>: nothing links to the new
  scene. Started from scene A of the two-scene story, the flow retargets the choice
  "Enter", which pointed at B, to the new scene, and the new choice is again unlinked.
  The handler looks the last choice up in the \<^verbatim>\<open>story\<close> prop of its render, which does
  not hold the choice that \<^verbatim>\<open>onAddChoice\<close> has just added.
\<close>

theorem handleAiSuggest_leaves_new_choice_unlinked:
  "map (\<lambda>s. (scene_id s, map (\<lambda>c. (choice_text c, targetSceneId c)) (choices s)))
     (scenes (hd (fst (handleAiSuggest (\<lambda>req. Some ex_cave) (\<lambda>req. None) ex_env
                        ex_single ex_editing [ex_single]))))
   = [(''A'', [(''Continue to Cave'', None)]),
      (''1700000000000-k2j5h8d3x'', [])]
   \<and> map (\<lambda>s. (scene_id s, map (\<lambda>c. (choice_text c, targetSceneId c)) (choices s)))
     (scenes (hd (fst (handleAiSuggest (\<lambda>req. Some ex_cave) (\<lambda>req. None) ex_env
                        ex_story ex_editing [ex_story]))))
   = [(''A'', [(''Enter'', Some ''1700000000000-k2j5h8d3x''), (''Continue to Cave'', None)]),
      (''B'', [(''Go back'', Some ''A'')]),
      (''1700000000000-k2j5h8d3x'', [])]"
  by (simp add: handleAiSuggest_def ex_single_def ex_story_def ex_sceneA_def ex_sceneB_def
        ex_editing_def ex_cave_def ex_env_def find_scene_def trim_examples eval_store eval_id)

lemma addChoice_last:
  assumes "st' \<in> set (snd (addChoice sid cur label now rnd stories))" "story_id st' = sid"
      "s \<in> set (scenes st')" "scene_id s = cur"
  shows "choices s \<noteq> [] \<and>
         last (choices s) = \<lparr> choice_id = generateId now rnd, choice_text = label, targetSceneId = None \<rparr>"
proof -
  let ?b = "\<lparr> choice_id = generateId now rnd, choice_text = label, targetSceneId = None \<rparr>"
  from assms(1,2) obtain st0 where st': "st' = st0\<lparr> scenes := map (\<lambda>s. if scene_id s = cur
                 then s\<lparr> choices := choices s @ [?b] \<rparr> else s) (scenes st0) \<rparr>"
    by (auto simp: addChoice_def Let_def split: if_splits)
  from assms(3,4) st' obtain s0 where "s = s0\<lparr> choices := choices s0 @ [?b] \<rparr>"
    by (auto split: if_splits)
  then show ?thesis by simp
qed

lemma updateChoice_last:
  assumes "st' \<in> set (updateChoice sid cur cid p stories)" "story_id st' = sid"
      "s \<in> set (scenes st')" "scene_id s = cur"
      and before: "\<And>st0 s0. st0 \<in> set stories \<Longrightarrow> story_id st0 = sid \<Longrightarrow> s0 \<in> set (scenes st0)
                     \<Longrightarrow> scene_id s0 = cur \<Longrightarrow> choices s0 \<noteq> [] \<and> last (choices s0) = b"
      and other: "choice_id b \<noteq> cid"
  shows "choices s \<noteq> [] \<and> last (choices s) = b"
proof -
  from assms(1,2) obtain st0 where st0: "st0 \<in> set stories" "story_id st0 = sid"
    and st': "st' = st0\<lparr> scenes := map (\<lambda>s. if scene_id s = cur
                 then s\<lparr> choices := map (\<lambda>c. if choice_id c = cid then merge_choice c p else c) (choices s) \<rparr>
                 else s) (scenes st0) \<rparr>"
    by (auto simp: updateChoice_def split: if_splits)
  from assms(3,4) st' obtain s0 where s0: "s0 \<in> set (scenes st0)" "scene_id s0 = cur"
    and s: "s = s0\<lparr> choices := map (\<lambda>c. if choice_id c = cid then merge_choice c p else c) (choices s0) \<rparr>"
    by (auto split: if_splits)
  from before[OF st0 s0] have ne: "choices s0 \<noteq> []" and l: "last (choices s0) = b" by simp_all
  show ?thesis using ne l other by (simp add: s last_map)
qed

text \<open>
  Whenever the flow reaches its store updates, every scene of the story that carries the
  identifier of the originating scene ends with the new choice, and that choice is
  unlinked, unless its identifier happens to be that of the choice the stale snapshot
  calls the last one.
\<close>

lemma handleAiSuggest_new_choice_unlinked:
  assumes cur: "cv_currentSceneId cs = Some cur"
      and found: "find_scene (scenes st) (Some cur) = Some sc"
      and body: "trim (scene_body sc) \<noteq> []" and title: "trim (story_title st) \<noteq> []"
      and descr: "trim (description st) \<noteq> []"
      and ok: "sceneHook \<lparr> storyTitle = trim (story_title st), storyDescription = trim (description st),
                            currentSceneBody = trim (scene_body sc), storySummary = None \<rparr> = Some result"
      and texts: "texts = (case choicesHook \<lparr> sceneBody = sr_body result,
                                               storyContext = Some (description st) \<rparr> of
                             None \<Rightarrow> [] | Some ts \<Rightarrow> ts)"
      and other: "choices sc = [] \<or>
                  choice_id (last (choices sc)) \<noteq> generateId (fst (env (Suc (length texts))))
                                                            (snd (env (Suc (length texts))))"
      and st': "st' \<in> set (fst (handleAiSuggest sceneHook choicesHook env st cs stories))"
               "story_id st' = story_id st"
      and s: "s \<in> set (scenes st')" "scene_id s = cur"
  shows "choices s \<noteq> [] \<and>
         last (choices s) = \<lparr> choice_id = generateId (fst (env (Suc (length texts))))
                                                     (snd (env (Suc (length texts)))),
                               choice_text = ''Continue to '' @ sr_title result,
                               targetSceneId = None \<rparr>"
proof -
  define newScene where "newScene = fst (createScene (story_id st) ''New Scene'' (fst (env 0)) (snd (env 0)) stories)"
  define s3 where "s3 = add_choices (story_id st) (scene_id newScene) texts env 1
      (updateScene (story_id st) (scene_id newScene) (content_patch result)
         (snd (createScene (story_id st) ''New Scene'' (fst (env 0)) (snd (env 0)) stories)))"
  define s4 where "s4 = snd (addChoice (story_id st) cur (''Continue to '' @ sr_title result)
                    (fst (env (Suc (length texts)))) (snd (env (Suc (length texts)))) s3)"
  let ?b = "\<lparr> choice_id = generateId (fst (env (Suc (length texts)))) (snd (env (Suc (length texts)))),
              choice_text = ''Continue to '' @ sr_title result, targetSceneId = None \<rparr>"
  have run: "fst (handleAiSuggest sceneHook choicesHook env st cs stories)
     = (case choices sc of [] \<Rightarrow> s4
        | _ # _ \<Rightarrow> updateChoice (story_id st) cur (choice_id (last (choices sc)))
                     (link_patch (scene_id newScene)) s4)"
    using cur found body title descr ok
    by (simp add: handleAiSuggest_def Let_def texts[symmetric] s4_def s3_def newScene_def
             split: list.splits)
  have s4: "choices s0 \<noteq> [] \<and> last (choices s0) = ?b"
    if "st0 \<in> set s4" "story_id st0 = story_id st" "s0 \<in> set (scenes st0)" "scene_id s0 = cur"
    for st0 s0
    using that unfolding s4_def by (rule addChoice_last)
  show ?thesis
  proof (cases "choices sc")
    case Nil
    with run st' have "st' \<in> set s4" by simp
    from s4[OF this st'(2) s] show ?thesis .
  next
    case (Cons c cs')
    with run st' have in5: "st' \<in> set (updateChoice (story_id st) cur (choice_id (last (choices sc)))
                     (link_patch (scene_id newScene)) s4)" by simp
    from Cons other have ne: "choice_id ?b \<noteq> choice_id (last (choices sc))" by auto
    show ?thesis
      by (rule updateChoice_last[OF in5 st'(2) s _ ne]) (rule s4)
  qed
qed

end
